theory Spec2Isabelle
  imports Main
begin

section \<open>Exceptions\<close>

text \<open>
  The Python exceptions that the modelled functions raise or catch. \<open>TimeoutError\<close> is
  the class of that name that the module imports from Playwright. \<open>OtherError\<close> stands
  for every exception that is an \<open>Exception\<close> but none of the named ones (a Playwright
  \<open>Error\<close>, an \<open>AttributeError\<close>, a \<open>PermissionError\<close>, ...).
\<close>

datatype exn =
  TimeoutError | NotImplementedError | ValueError | KeyError | TypeError | OtherError

section \<open>Variant enumeration: \<open>get_all_combinations\<close>\<close>

text \<open>
  \<open>get_all_combinations(*lists)\<close> is \<open>list(itertools.product(*lists))\<close>. The library
  function is modelled by the loop of its documentation: the result starts as the list
  holding the empty combination, and every pool in turn replaces it by
  \<open>[x + [y] for x in result for y in pool]\<close>. A tuple is a list.
\<close>

definition product_step :: "'a list list \<Rightarrow> 'a list \<Rightarrow> 'a list list" where
  "product_step result pool = concat (map (\<lambda>x. map (\<lambda>y. x @ [y]) pool) result)"

definition get_all_combinations :: "'a list list \<Rightarrow> 'a list list" where
  "get_all_combinations pools = foldl product_step [[]] pools"

text \<open>
  The order the specification asks for, written after its words: nested iteration over
  the axes, the first axis outermost, so that the last axis varies fastest.
\<close>

fun nested_iteration :: "'a list list \<Rightarrow> 'a list list" where
  "nested_iteration [] = [[]]"
| "nested_iteration (axis # axes) =
     concat (map (\<lambda>v. map (\<lambda>c. v # c) (nested_iteration axes)) axis)"

section \<open>Listing pages: \<open>get_total_pages\<close>\<close>

text \<open>
  \<open>get_total_pages\<close> reads the digit runs that the regular expression \<open>\d+\<close> finds in
  the pagination links; the model starts from that list of strings. \<open>py_int\<close> is
  \<open>int(number)\<close> on such a string: the value of a non-empty run of decimal digits, and
  \<open>ValueError\<close> on anything else. \<open>py_max\<close> is \<open>max\<close>, which raises \<open>ValueError\<close> on
  an empty list.
\<close>

definition is_digit :: "char \<Rightarrow> bool" where
  "is_digit c = (c \<in> set ''0123456789'')"

definition digit_value :: "char \<Rightarrow> int" where
  "digit_value c = int (of_char c) - 48"

definition py_int :: "string \<Rightarrow> exn + int" where
  "py_int s =
     (if s \<noteq> [] \<and> list_all is_digit s
      then Inr (foldl (\<lambda>acc c. 10 * acc + digit_value c) 0 s)
      else Inl ValueError)"

fun int_each :: "string list \<Rightarrow> exn + int list" where
  "int_each [] = Inr []"
| "int_each (s # ss) =
     (case py_int s of
        Inl e \<Rightarrow> Inl e
      | Inr n \<Rightarrow> (case int_each ss of Inl e \<Rightarrow> Inl e | Inr ns \<Rightarrow> Inr (n # ns)))"

fun py_max :: "int list \<Rightarrow> exn + int" where
  "py_max [] = Inl ValueError"
| "py_max (n # ns) = Inr (foldl max n ns)"

definition get_total_pages :: "string list \<Rightarrow> int" where
  "get_total_pages pagination_numbers =
     (case (if pagination_numbers \<noteq> []
            then (case int_each pagination_numbers of Inl e \<Rightarrow> Inl e | Inr ns \<Rightarrow> py_max ns)
            else Inr 1) of
        Inr pages \<Rightarrow> pages
      | Inl e \<Rightarrow> 1)"

section \<open>The persisted set of product URLs\<close>

text \<open>
  \<open>products_urls.pkl\<close> holds a set of URLs, or does not exist (\<open>None\<close>).
  \<open>load_products_urls\<close> reads it, the empty set when the file is absent.

  One page of \<open>handle_listing\<close> accesses the file twice: it loads the set into its
  variable \<open>products_urls\<close>, then awaits \<open>get_page_products_urls\<close>, then unites the
  variable with the URLs found and dumps the union. The two accesses are the steps
  \<open>LoadStep\<close> and \<open>DumpStep\<close>; other tasks can run between them. A trace is the
  order in which the steps of a batch of tasks are executed, each step with the number
  of its task, and \<open>exec_steps\<close> executes it on the file, with the variable
  \<open>products_urls\<close> of every task.
\<close>

definition load_products_urls :: "string set option \<Rightarrow> string set" where
  "load_products_urls file = (case file of Some urls \<Rightarrow> urls | None \<Rightarrow> {})"

datatype listing_step = LoadStep | DumpStep "string list"

fun exec_steps ::
  "(nat \<times> listing_step) list \<Rightarrow> string set option \<Rightarrow> (nat \<Rightarrow> string set)
     \<Rightarrow> string set option" where
  "exec_steps [] file products_urls = file"
| "exec_steps ((t, LoadStep) # rest) file products_urls =
     exec_steps rest file (products_urls(t := load_products_urls file))"
| "exec_steps ((t, DumpStep new_urls) # rest) file products_urls =
     exec_steps rest (Some (products_urls t \<union> set new_urls)) products_urls"

text \<open>
  A trace interleaves the tasks when every step in it is the step of a task and the
  steps of every task are in it, in the task's order. The semaphore of
  \<open>gather_with_concurrency(n, ...)\<close> lets at most \<open>n\<close> tasks be under way at a time; of a
  trace this asks that at any moment at most \<open>n\<close> tasks have made their first access to
  the file and not yet their last.
\<close>

definition steps_of :: "nat \<Rightarrow> (nat \<times> listing_step) list \<Rightarrow> listing_step list" where
  "steps_of t trace = map snd (filter (\<lambda>(i, step). i = t) trace)"

definition interleaving :: "(nat \<times> listing_step) list \<Rightarrow> listing_step list list \<Rightarrow> bool" where
  "interleaving trace tasks =
     (list_all (\<lambda>(i, step). i < length tasks) trace
      \<and> list_all (\<lambda>t. steps_of t trace = tasks ! t) [0 ..< length tasks])"

definition under_way :: "listing_step list list \<Rightarrow> (nat \<times> listing_step) list \<Rightarrow> nat" where
  "under_way tasks executed =
     length (filter (\<lambda>t. steps_of t executed \<noteq> [] \<and> steps_of t executed \<noteq> tasks ! t)
               [0 ..< length tasks])"

definition admissible :: "nat \<Rightarrow> listing_step list list \<Rightarrow> (nat \<times> listing_step) list \<Rightarrow> bool" where
  "admissible n tasks trace =
     list_all (\<lambda>k. under_way tasks (take k trace) \<le> n) [0 ..< Suc (length trace)]"

section \<open>The cart oracle: \<open>try_inventory_quantity\<close>\<close>

text \<open>
  The page and the browser are outside the program. A page is a value of a type \<open>'c\<close>, and
  what the program can do with it is a record of functions: each returns the exception
  it raises, if any, and the page afterwards. Every call of the browser API ends (the
  context's default timeout is 5000 ms), so these functions are total; only the loops of
  the program can run forever, and a function that contains one returns an \<open>option\<close>,
  \<open>None\<close> when it never returns.

  \<open>cart_add_response\<close> is what the program reads of the answer to the cart request:
  \<open>MissingData\<close> when the answer has no key \<open>data\<close> (the \<open>KeyError\<close> of
  \<open>response_obj['data']\<close>), otherwise whether \<open>response_obj['data'].get('error')\<close> is
  true.
\<close>

datatype cart_response = MissingData | CartData bool

record item =
  product_name :: "string option"
  item_url :: string
  droplists :: "(string \<times> string) list"
  current_stock :: int

record 'c page_agent =
  page_url :: "'c \<Rightarrow> string"
  fill_qty :: "int \<Rightarrow> 'c \<Rightarrow> exn option \<times> 'c"
  click_add_to_cart :: "'c \<Rightarrow> exn option \<times> 'c"
  reload :: "'c \<Rightarrow> exn option \<times> 'c"
  cart_add_response :: "'c \<Rightarrow> (exn + cart_response) \<times> 'c"
  click_confirm :: "'c \<Rightarrow> exn option \<times> 'c"
  click_modal_close :: "'c \<Rightarrow> exn option \<times> 'c"
  check_out_of_stock :: "'c \<Rightarrow> (exn + bool) \<times> 'c"
  options_dict :: "'c \<Rightarrow> (exn + (nat \<times> string list) list) \<times> 'c"
  select_attr_option :: "nat \<Rightarrow> string \<Rightarrow> 'c \<Rightarrow> exn option \<times> 'c"
  get_product_item :: "'c \<Rightarrow> (exn + item) \<times> 'c"
  get_select_desc :: "nat \<Rightarrow> 'c \<Rightarrow> (exn + string) \<times> 'c"
  popup :: "'c \<Rightarrow> exn option \<times> 'c"
  unavailable_button :: "'c \<Rightarrow> (exn + bool) \<times> 'c"

text \<open>
  The \<open>while True\<close> loop around the click on the add-to-cart button: a click that raises
  \<open>TimeoutError\<close> increments \<open>count\<close>, reloads the page when \<open>count % 5 == 0\<close>, and
  is tried again, with no bound. Any other exception, of the click or of the reload,
  leaves the loop.
\<close>

partial_function (option) click_until_done ::
  "'c page_agent \<Rightarrow> int \<Rightarrow> 'c \<Rightarrow> (exn option \<times> 'c) option" where
  "click_until_done ag count c =
     (case click_add_to_cart ag c of
        (None, c1) \<Rightarrow> Some (None, c1)
      | (Some e, c1) \<Rightarrow>
          if e = TimeoutError then
            (if (count + 1) mod 5 = 0 then
               (case reload ag c1 of
                  (None, c2) \<Rightarrow> click_until_done ag (count + 1) c2
                | (Some e2, c2) \<Rightarrow> Some (Some e2, c2))
             else click_until_done ag (count + 1) c1)
          else Some (Some e, c1))"

declare click_until_done.simps [code]

text \<open>
  The body of the outer \<open>try\<close> of \<open>try_inventory_quantity\<close>: fill the quantity, click
  until the click is done, read the answer to the cart request. Inside the inner \<open>try\<close>,
  an answer with an error is confirmed and gives \<open>False\<close>, an answer without one closes
  the preview and gives \<open>True\<close>, and a \<open>KeyError\<close> gives \<open>True\<close>.
\<close>

definition cart_interaction ::
  "'c page_agent \<Rightarrow> int \<Rightarrow> 'c \<Rightarrow> ((exn + bool) \<times> 'c) option" where
  "cart_interaction ag check_value c =
     (case fill_qty ag check_value c of
        (Some e, c1) \<Rightarrow> Some (Inl e, c1)
      | (None, c1) \<Rightarrow>
          (case click_until_done ag 0 c1 of
             None \<Rightarrow> None
           | Some (Some e, c2) \<Rightarrow> Some (Inl e, c2)
           | Some (None, c2) \<Rightarrow>
               (case cart_add_response ag c2 of
                  (Inl e, c3) \<Rightarrow> Some (Inl e, c3)
                | (Inr MissingData, c3) \<Rightarrow> Some (Inr True, c3)
                | (Inr (CartData err), c3) \<Rightarrow>
                    (case (if err then click_confirm ag c3 else click_modal_close ag c3) of
                       (None, c4) \<Rightarrow> Some (Inr (\<not> err), c4)
                     | (Some e, c4) \<Rightarrow>
                         if e = KeyError then Some (Inr True, c4) else Some (Inl e, c4)))))"

text \<open>
  The outer handler, \<open>except Exception\<close>: it logs and executes \<open>raise TimeoutError\<close>;
  the \<open>return False\<close> after it is never reached. The name is Playwright's class, whose
  constructor takes the message of the error: the statement calls it without one, so
  what it raises is the \<open>TypeError\<close> of that call, not a \<open>TimeoutError\<close>.
\<close>

definition try_inventory_quantity ::
  "'c page_agent \<Rightarrow> int \<Rightarrow> 'c \<Rightarrow> ((exn + bool) \<times> 'c) option" where
  "try_inventory_quantity ag check_value c =
     (case cart_interaction ag check_value c of
        None \<Rightarrow> None
      | Some (Inl e, c') \<Rightarrow> Some (Inl TypeError, c')
      | Some (Inr available, c') \<Rightarrow> Some (Inr available, c'))"

section \<open>The stock prober: \<open>get_inventory_value\<close>\<close>

text \<open>
  \<open>utils/playwright_utils.py\<close>. The oracle \<open>try_q\<close> and the out-of-stock check are
  parameters, so that the prober can be run against a synthetic oracle as well as against
  \<open>try_inventory_quantity\<close>. \<open>inventory_loop\<close> is the \<open>while True\<close> loop, its state the
  three variables \<open>check_value\<close>, \<open>try_count\<close> and \<open>inventory\<close>; \<open>//\<close> is \<open>div\<close>.
\<close>

partial_function (option) inventory_loop ::
  "(int \<Rightarrow> 'c \<Rightarrow> ((exn + bool) \<times> 'c) option) \<Rightarrow> int \<Rightarrow> int \<Rightarrow> int \<Rightarrow> 'c
     \<Rightarrow> ((exn + int) \<times> 'c) option" where
  "inventory_loop try_q check_value try_count inventory c =
     (let try_count1 = try_count + 1;
          check_value1 = (if try_count1 > 10 then check_value + 50000 else check_value);
          try_count2 = (if try_count1 > 10 then - 100000 else try_count1)
      in case try_q check_value1 c of
           None \<Rightarrow> None
         | Some (Inl e, c') \<Rightarrow> Some (Inl e, c')
         | Some (Inr availability, c') \<Rightarrow>
             (let inventory' = (if availability then inventory + check_value1 else inventory);
                  check_value2 = (if availability then check_value1 else check_value1 div 2)
              in if check_value2 = 1 \<and> \<not> availability then Some (Inr inventory', c')
                 else inventory_loop try_q check_value2 try_count2 inventory' c'))"

declare inventory_loop.simps [code]

definition get_inventory_value ::
  "(int \<Rightarrow> 'c \<Rightarrow> ((exn + bool) \<times> 'c) option) \<Rightarrow> ('c \<Rightarrow> (exn + bool) \<times> 'c) \<Rightarrow> int \<Rightarrow> 'c
     \<Rightarrow> ((exn + int) \<times> 'c) option" where
  "get_inventory_value try_q out_of_stock check_value c =
     (case out_of_stock c of
        (Inl e, c1) \<Rightarrow> Some (Inl e, c1)
      | (Inr True, c1) \<Rightarrow> Some (Inr 0, c1)
      | (Inr False, c1) \<Rightarrow> inventory_loop try_q check_value 0 0 c1)"

text \<open>
  \<open>scraper.py\<close> has a second prober: one call at \<open>check_value\<close>, then a binary search
  between 1 and \<open>check_value - 1\<close>. Its \<open>try_inventory_quantity\<close> catches every
  exception and returns \<open>False\<close>, so its oracle returns a boolean.
\<close>

function binary_search ::
  "(int \<Rightarrow> 'c \<Rightarrow> bool \<times> 'c) \<Rightarrow> int \<Rightarrow> int \<Rightarrow> 'c \<Rightarrow> int \<times> 'c" where
  "binary_search try_q left right c =
     (if left \<le> right then
        (let mid = (left + right) div 2 in
         case try_q mid c of
           (True, c') \<Rightarrow> binary_search try_q (mid + 1) right c'
         | (False, c') \<Rightarrow> binary_search try_q left (mid - 1) c')
      else (right, c))"
  by pat_completeness auto
termination
  by (relation "measure (\<lambda>(try_q, left, right, c). nat (right - left + 1))") auto

definition get_inventory_value_scraper ::
  "(int \<Rightarrow> 'c \<Rightarrow> bool \<times> 'c) \<Rightarrow> int \<Rightarrow> 'c \<Rightarrow> int \<times> 'c" where
  "get_inventory_value_scraper try_q check_value c =
     (case try_q check_value c of
        (True, c') \<Rightarrow> (check_value, c')
      | (False, c') \<Rightarrow> binary_search try_q 1 (check_value - 1) c')"

text \<open>
  The synthetic oracle of the specification: \<open>AVAILABLE\<close> exactly when \<open>n \<le> Q\<close>. Its
  state is the number of calls made so far. \<open>never_marked\<close> is a product page without
  the out-of-stock mark. \<open>halvings n\<close> is the number of times \<open>n\<close> can be halved before
  it is 0, the length of its binary numeral.
\<close>

definition counting_oracle :: "int \<Rightarrow> int \<Rightarrow> nat \<Rightarrow> ((exn + bool) \<times> nat) option" where
  "counting_oracle Q n calls = Some (Inr (n \<le> Q), Suc calls)"

definition scraper_oracle :: "int \<Rightarrow> int \<Rightarrow> nat \<Rightarrow> bool \<times> nat" where
  "scraper_oracle Q n calls = (n \<le> Q, Suc calls)"

definition never_marked :: "nat \<Rightarrow> (exn + bool) \<times> nat" where
  "never_marked calls = (Inr False, calls)"

fun halvings :: "nat \<Rightarrow> nat" where
  "halvings n = (if n = 0 then 0 else Suc (halvings (n div 2)))"

declare halvings.simps [simp del]

section \<open>Product pages: \<open>check_handled_url\<close> and \<open>inventory_identifier\<close>\<close>

text \<open>
  \<open>options_dict\<close> is \<open>get_options_dict\<close>: the select elements of the page in page order,
  each with its option values; a handle is a number. A stored record is an \<open>item\<close>: of
  the keys of the dictionary, the record keeps those the program reads or computes, the
  other keys hold text extracted from the page. \<open>product_name\<close> is \<open>None\<close> when the
  page has no heading.

  \<open>check_handled_url\<close> compares the number of combinations with the length of the list
  \<open>[item['product_name'] == page.url for item in data]\<close>.
\<close>

definition check_handled_url ::
  "'c page_agent \<Rightarrow> item list \<Rightarrow> 'c \<Rightarrow> (exn + bool) \<times> 'c" where
  "check_handled_url ag data c =
     (case options_dict ag c of
        (Inl e, c1) \<Rightarrow> (Inl e, c1)
      | (Inr attrs_dict, c1) \<Rightarrow>
          (let all_combinations = get_all_combinations (map snd attrs_dict)
           in (Inr (length all_combinations
                      = length (map (\<lambda>item. product_name item = Some (page_url ag c1)) data)),
               c1)))"

text \<open>
  The selection of one combination. With more than one select element, handles and
  values are zipped; with exactly one, every value of the combination is selected on it.
\<close>

definition selections :: "(nat \<times> string list) list \<Rightarrow> string list \<Rightarrow> (nat \<times> string) list" where
  "selections attrs_dict combination =
     (if length attrs_dict > 1 then zip (map fst attrs_dict) combination
      else if length attrs_dict = 1
        then concat (map (\<lambda>(attr_handle, values). map (\<lambda>v. (attr_handle, v)) combination)
                         attrs_dict)
      else [])"

fun select_each :: "'c page_agent \<Rightarrow> (nat \<times> string) list \<Rightarrow> 'c \<Rightarrow> exn option \<times> 'c" where
  "select_each ag [] c = (None, c)"
| "select_each ag ((attr_handle, v) # rest) c =
     (case select_attr_option ag attr_handle v c of
        (Some e, c1) \<Rightarrow> (Some e, c1)
      | (None, c1) \<Rightarrow> select_each ag rest c1)"

fun select_descs :: "'c page_agent \<Rightarrow> nat list \<Rightarrow> 'c \<Rightarrow> (exn + string list) \<times> 'c" where
  "select_descs ag [] c = (Inr [], c)"
| "select_descs ag (attr_handle # rest) c =
     (case get_select_desc ag attr_handle c of
        (Inl e, c1) \<Rightarrow> (Inl e, c1)
      | (Inr desc, c1) \<Rightarrow>
          (case select_descs ag rest c1 of
             (Inl e, c2) \<Rightarrow> (Inl e, c2)
           | (Inr descs, c2) \<Rightarrow> (Inr (desc # descs), c2)))"

text \<open>
  Slot \<open>i + 1\<close> of the droplist columns receives the \<open>i\<close>-th pair of name and value; the
  slots after the last pair keep what \<open>get_product_item\<close> put there.
\<close>

definition set_droplists :: "(string \<times> string) list \<Rightarrow> (string \<times> string) list \<Rightarrow> (string \<times> string) list" where
  "set_droplists pairs slots = pairs @ drop (length pairs) slots"

text \<open>
  The body of the loop over the combinations. The copy of \<open>primary_item\<close> is updated with
  a fresh \<open>get_product_item\<close>, which has every key, so the variation is the fresh item;
  then the droplist columns and the probed stock are written.
\<close>

definition probe_variation ::
  "'c page_agent \<Rightarrow> (nat \<times> string list) list \<Rightarrow> string list \<Rightarrow> int \<Rightarrow> 'c
     \<Rightarrow> ((exn + item) \<times> 'c) option" where
  "probe_variation ag attrs_dict combination guessed_initial_value c =
     (case select_each ag (selections attrs_dict combination) c of
        (Some e, c1) \<Rightarrow> Some (Inl e, c1)
      | (None, c1) \<Rightarrow>
     (case get_product_item ag c1 of
        (Inl e, c2) \<Rightarrow> Some (Inl e, c2)
      | (Inr variation_item, c2) \<Rightarrow>
     (case select_descs ag (map fst attrs_dict) c2 of
        (Inl e, c3) \<Rightarrow> Some (Inl e, c3)
      | (Inr attr_names, c3) \<Rightarrow>
     (case get_inventory_value (try_inventory_quantity ag) (check_out_of_stock ag)
             guessed_initial_value c3 of
        None \<Rightarrow> None
      | Some (Inl e, c4) \<Rightarrow> Some (Inl e, c4)
      | Some (Inr inventory_quantity, c4) \<Rightarrow>
          Some (Inr (variation_item
                  \<lparr>droplists := set_droplists (zip attr_names combination)
                                   (droplists variation_item),
                    current_stock := inventory_quantity\<rparr>), c4)))))"

fun probe_combinations ::
  "'c page_agent \<Rightarrow> (nat \<times> string list) list \<Rightarrow> string list list \<Rightarrow> int \<Rightarrow> item list \<Rightarrow> 'c
     \<Rightarrow> ((exn + unit) \<times> item list \<times> 'c) option" where
  "probe_combinations ag attrs_dict [] guess data c = Some (Inr (), data, c)"
| "probe_combinations ag attrs_dict (combination # rest) guess data c =
     (case probe_variation ag attrs_dict combination guess c of
        None \<Rightarrow> None
      | Some (Inl e, c1) \<Rightarrow> Some (Inl e, data, c1)
      | Some (Inr variation_item, c1) \<Rightarrow>
          probe_combinations ag attrs_dict rest guess (data @ [variation_item]) c1)"

text \<open>
  \<open>inventory_identifier\<close> returns the number of combinations, or raises; \<open>data\<close> is the
  shared list it appends to, returned as it is left in either case.
\<close>

definition inventory_identifier ::
  "'c page_agent \<Rightarrow> item list \<Rightarrow> int \<Rightarrow> 'c \<Rightarrow> ((exn + nat) \<times> item list \<times> 'c) option" where
  "inventory_identifier ag data guessed_initial_value c =
     (case options_dict ag c of
        (Inl e, c1) \<Rightarrow> Some (Inl e, data, c1)
      | (Inr attrs_dict, c1) \<Rightarrow>
          if attrs_dict = [] then Some (Inl NotImplementedError, data, c1)
          else
            (let all_combinations = get_all_combinations (map snd attrs_dict)
             in case probe_combinations ag attrs_dict all_combinations guessed_initial_value
                       data c1 of
                  None \<Rightarrow> None
                | Some (Inl e, data', c2) \<Rightarrow> Some (Inl e, data', c2)
                | Some (Inr u, data', c2) \<Rightarrow> Some (Inr (length all_combinations), data', c2)))"

section \<open>Tasks: \<open>handle_url\<close>, \<open>handle_listing\<close>, \<open>gather_with_concurrency\<close>, \<open>run\<close>\<close>

text \<open>
  What the tasks share: the list \<open>data\<close>, the set \<open>failed_urls\<close>, and the files
  \<open>products_urls.pkl\<close>, \<open>failed_urls.pkl\<close> and \<open>data.pkl\<close> (\<open>None\<close> while a file does
  not exist). \<open>events\<close> is not a variable of the program: it records, in order, the
  return of the listing batch and the start of every product task.
\<close>

datatype event = ListingBatchDone | ProductStart string

record world =
  data :: "item list"
  failed_urls :: "string set"
  products_file :: "string set option"
  failed_file :: "string set option"
  data_file :: "item list option"
  events :: "event list"

text \<open>
  The browser and the site. \<open>new_page\<close> is \<open>browser.new_context()\<close> followed by
  \<open>context.new_page()\<close> at the start of \<open>handle_url\<close>, \<open>close_page\<close> the two closes at its
  end, \<open>export\<close> the function of \<open>export_utils\<close>, which re-raises what the writing of the
  file raises. For a listing, \<open>listing_new_page\<close> is the opening of its context and
  page before the \<open>try\<close>, \<open>listing_open\<close> the navigation to it, the digit runs of its
  pagination links and the close of the page, and \<open>listing_close\<close> the close of the
  context in the \<open>finally\<close> block. For a page of a listing, \<open>listing_page_open\<close> is
  the opening of its context and page, \<open>listing_goto\<close> the navigation to it,
  \<open>get_page_products_urls\<close> the product URLs found there, and \<open>listing_page_close\<close>
  the two closes of the inner \<open>finally\<close> block.
\<close>

record 'c env =
  agent :: "'c page_agent"
  new_page :: "string \<Rightarrow> exn + 'c"
  goto :: "string \<Rightarrow> 'c \<Rightarrow> exn option \<times> 'c"
  export :: "item list \<Rightarrow> exn option"
  close_page :: "'c \<Rightarrow> exn option"
  listing_new_page :: "string \<Rightarrow> exn option"
  listing_open :: "string \<Rightarrow> exn + string list"
  listing_close :: "string \<Rightarrow> exn option"
  listing_page_open :: "string \<Rightarrow> int \<Rightarrow> exn option"
  listing_goto :: "string \<Rightarrow> int \<Rightarrow> exn option"
  get_page_products_urls :: "string \<Rightarrow> int \<Rightarrow> exn + string list"
  listing_page_close :: "string \<Rightarrow> int \<Rightarrow> exn option"

text \<open>
  The \<open>try\<close> block of \<open>handle_url\<close> with the two handlers around
  \<open>inventory_identifier\<close>. The result is the exception that reaches the handler
  \<open>except Exception\<close>, if any, with the shared state and the page.
\<close>

definition handle_url_try ::
  "'c env \<Rightarrow> string \<Rightarrow> world \<Rightarrow> 'c \<Rightarrow> (exn option \<times> world \<times> 'c) option" where
  "handle_url_try en url w c =
     (case goto en url c of
        (Some e, c1) \<Rightarrow> Some (Some e, w, c1)
      | (None, c1) \<Rightarrow>
     (case check_handled_url (agent en) (data w) c1 of
        (Inl e, c2) \<Rightarrow> Some (Some e, w, c2)
      | (Inr True, c2) \<Rightarrow> Some (None, w, c2)
      | (Inr False, c2) \<Rightarrow>
     (case popup (agent en) c2 of
        (Some e, c3) \<Rightarrow> Some (Some e, w, c3)
      | (None, c3) \<Rightarrow>
     (case get_product_item (agent en) c3 of
        (Inl e, c4) \<Rightarrow> Some (Some e, w, c4)
      | (Inr primary_item, c4) \<Rightarrow>
     (case unavailable_button (agent en) c4 of
        (Inl e, c5) \<Rightarrow> Some (Some e, w, c5)
      | (Inr True, c5) \<Rightarrow> Some (None, w\<lparr>data := data w @ [primary_item]\<rparr>, c5)
      | (Inr False, c5) \<Rightarrow>
     (case inventory_identifier (agent en) (data w) 100 c5 of
        None \<Rightarrow> None
      | Some (Inr n, data', c6) \<Rightarrow> Some (None, w\<lparr>data := data'\<rparr>, c6)
      | Some (Inl e, data', c6) \<Rightarrow>
          if e = TimeoutError \<or> e = NotImplementedError
          then Some (None,
                     w\<lparr>data := data',
                       failed_urls := insert url (failed_urls w),
                       failed_file := Some (insert url (failed_urls w))\<rparr>, c6)
          else Some (Some e, w\<lparr>data := data'\<rparr>, c6)))))))"

text \<open>
  \<open>handle_url\<close>: the context and the page are opened before the \<open>try\<close>; the handler
  \<open>except Exception\<close> adds the URL to \<open>failed_urls\<close>; the \<open>finally\<close> block exports and
  dumps \<open>data\<close> and closes the page. The result is the exception that leaves the task,
  if any.
\<close>

definition handle_url :: "'c env \<Rightarrow> string \<Rightarrow> world \<Rightarrow> (exn option \<times> world) option" where
  "handle_url en url w =
     (let w0 = w\<lparr>events := events w @ [ProductStart url]\<rparr> in
      case new_page en url of
        Inl e \<Rightarrow> Some (Some e, w0)
      | Inr c \<Rightarrow>
          (case handle_url_try en url w0 c of
             None \<Rightarrow> None
           | Some (raised, w1, c1) \<Rightarrow>
               (let w2 = (case raised of
                            Some e \<Rightarrow> w1\<lparr>failed_urls := insert url (failed_urls w1)\<rparr>
                          | None \<Rightarrow> w1)
                in case export en (data w2) of
                     Some e \<Rightarrow> Some (Some e, w2)
                   | None \<Rightarrow>
                       (let w3 = w2\<lparr>data_file := Some (data w2)\<rparr>
                        in case close_page en c1 of
                             Some e \<Rightarrow> Some (Some e, w3)
                           | None \<Rightarrow> Some (None, w3)))))"

text \<open>
  The steps of a listing task on \<open>products_urls.pkl\<close>, page after page. An exception of
  the opening of a page's context ends the loop over the pages, through the outer
  handler. Inside the inner \<open>try\<close>, an exception of the navigation comes before the load
  and one of the extraction after it; both are caught there and the loop goes on. An
  exception of the closes in the inner \<open>finally\<close> block ends the loop, through the outer
  handler.
\<close>

fun listing_pages :: "'c env \<Rightarrow> string \<Rightarrow> int list \<Rightarrow> listing_step list" where
  "listing_pages en listing_url [] = []"
| "listing_pages en listing_url (page_id # rest) =
     (case listing_page_open en listing_url page_id of
        Some e \<Rightarrow> []
      | None \<Rightarrow>
          (let steps =
                 (case listing_goto en listing_url page_id of
                    Some e \<Rightarrow> []
                  | None \<Rightarrow>
                      (case get_page_products_urls en listing_url page_id of
                         Inl e \<Rightarrow> [LoadStep]
                       | Inr new_urls \<Rightarrow> [LoadStep, DumpStep new_urls]))
           in case listing_page_close en listing_url page_id of
                Some e \<Rightarrow> steps
              | None \<Rightarrow> steps @ listing_pages en listing_url rest))"

text \<open>
  \<open>handle_listing\<close>: the exception that leaves the task, if any, and its steps on the
  file. The context and the page are opened before the \<open>try\<close>, so an exception of that
  leaves the task at once. An exception of the first navigation is caught by the outer
  handler, and no page is visited; otherwise the pages \<open>range(1, total_pages + 1)\<close> are.
  The close of the context in the \<open>finally\<close> block comes last, and its exception leaves
  the task.
\<close>

definition handle_listing :: "'c env \<Rightarrow> string \<Rightarrow> exn option \<times> listing_step list" where
  "handle_listing en listing_url =
     (case listing_new_page en listing_url of
        Some e \<Rightarrow> (Some e, [])
      | None \<Rightarrow>
          (listing_close en listing_url,
           (case listing_open en listing_url of
              Inl e \<Rightarrow> []
            | Inr pagination_numbers \<Rightarrow>
                listing_pages en listing_url [1 .. get_total_pages pagination_numbers])))"

text \<open>
  \<open>gather_with_concurrency\<close> awaits \<open>asyncio.gather\<close>, called without
  \<open>return_exceptions\<close>, on the tasks. When every task returns, it returns. When a task
  lets an exception out, the caller receives the first such exception; the other tasks
  are not cancelled, and what they go on to do is not part of what the caller receives.
  The model takes the outcomes of the tasks, the exception each lets out if any, and
  gives what the caller receives: a return or an exception. The number \<open>n\<close> bounds the
  tasks under way at a time, which bears on the order of their steps (\<open>admissible\<close>) and
  not on this.
\<close>

datatype batch = Escaped | AllReturned

definition gather_with_concurrency :: "nat \<Rightarrow> exn option list \<Rightarrow> batch" where
  "gather_with_concurrency n outcomes =
     (if list_all (\<lambda>outcome. outcome = None) outcomes then AllReturned else Escaped)"

definition listing_urls :: "string list" where
  "listing_urls =
     [''https://blackeaglearrows.com/bow-accessories/'',
      ''https://blackeaglearrows.com/arrows/'',
      ''https://blackeaglearrows.com/components/'',
      ''https://blackeaglearrows.com/gear/'']"

text \<open>
  \<open>run\<close>, up to the creation of the product tasks. The listing tasks are gathered two
  at a time; \<open>trace\<close> is the order in which their steps on the file are executed. When
  a listing task lets an exception out, \<open>run\<close> receives it and creates no product task.
  When the batch returns, \<open>run\<close> loads \<open>products_urls.pkl\<close> and creates the product tasks
  \<open>handle_url(url)\<close> for the URLs of \<open>list(products_urls)\<close>, to be gathered
  \<open>pages_number\<close> at a time from the state then reached. \<open>as_list\<close> is the order in
  which Python lists the set.
\<close>

datatype run_outcome = ListingEscaped | ProductBatch world nat "string list"

definition run ::
  "'c env \<Rightarrow> (nat \<times> listing_step) list \<Rightarrow> (string set \<Rightarrow> string list) \<Rightarrow> nat \<Rightarrow> world
     \<Rightarrow> run_outcome" where
  "run en trace as_list pages_number w =
     (case gather_with_concurrency 2 (map (\<lambda>url. fst (handle_listing en url)) listing_urls) of
        Escaped \<Rightarrow> ListingEscaped
      | AllReturned \<Rightarrow>
          (let w1 = w\<lparr>products_file := exec_steps trace (products_file w) (\<lambda>t. {}),
                      events := events w @ [ListingBatchDone]\<rparr>;
               products_urls = load_products_urls (products_file w1)
           in ProductBatch w1 pages_number (as_list products_urls)))"

text \<open>
  The steps of the four listing tasks, and the product URLs that the listing tasks find:
  those that a task unites with its variable and dumps.
\<close>

definition listing_tasks :: "'c env \<Rightarrow> listing_step list list" where
  "listing_tasks en = map (\<lambda>url. snd (handle_listing en url)) listing_urls"



section \<open>A simulated page\<close>

text \<open>
  A page to run the program on. Its state counts the clicks on the add-to-cart button
  and the reloads, and holds the number of clicks that will still time out. The page
  shows the select elements \<open>axes\<close>; filling the quantity raises \<open>fill_error\<close>, if any;
  the cart answers every request with an error when \<open>sold_out\<close>, without one otherwise.
  On \<open>stuck_agent\<close> every click on the add-to-cart button times out.
\<close>

record sim_page =
  timeouts_left :: nat
  clicks :: nat
  reloads :: nat

definition sim_item :: item where
  "sim_item =
     \<lparr>product_name = Some ''Arrow'', item_url = ''https://blackeaglearrows.com/arrow/'',
      droplists = [([], []), ([], []), ([], []), ([], [])], current_stock = 0\<rparr>"

definition sim_agent :: "(nat \<times> string list) list \<Rightarrow> exn option \<Rightarrow> bool \<Rightarrow> sim_page page_agent" where
  "sim_agent axes fill_error sold_out =
     \<lparr>page_url = (\<lambda>c. ''https://blackeaglearrows.com/arrow/''),
      fill_qty = (\<lambda>n c. (fill_error, c)),
      click_add_to_cart =
        (\<lambda>c. if timeouts_left c > 0
             then (Some TimeoutError,
                   c\<lparr>timeouts_left := timeouts_left c - 1, clicks := Suc (clicks c)\<rparr>)
             else (None, c\<lparr>clicks := Suc (clicks c)\<rparr>)),
      reload = (\<lambda>c. (None, c\<lparr>reloads := Suc (reloads c)\<rparr>)),
      cart_add_response = (\<lambda>c. (Inr (CartData sold_out), c)),
      click_confirm = (\<lambda>c. (None, c)),
      click_modal_close = (\<lambda>c. (None, c)),
      check_out_of_stock = (\<lambda>c. (Inr False, c)),
      options_dict = (\<lambda>c. (Inr axes, c)),
      select_attr_option = (\<lambda>attr_handle v c. (None, c)),
      get_product_item = (\<lambda>c. (Inr sim_item, c)),
      get_select_desc = (\<lambda>attr_handle c. (Inr ''Size'', c)),
      popup = (\<lambda>c. (None, c)),
      unavailable_button = (\<lambda>c. (Inr False, c))\<rparr>"


definition fresh_page :: sim_page where
  "fresh_page = \<lparr>timeouts_left = 0, clicks = 0, reloads = 0\<rparr>"

text \<open>
  A browser and a site around the simulated page: every page opens and closes, every
  export succeeds, and every listing has no pagination link and one page, on which it
  shows the product URLs \<open>found\<close> gives for it.
\<close>

definition sim_env :: "sim_page page_agent \<Rightarrow> (string \<Rightarrow> string list) \<Rightarrow> sim_page env" where
  "sim_env ag found =
     \<lparr>agent = ag,
      new_page = (\<lambda>url. Inr fresh_page),
      goto = (\<lambda>url c. (None, c)),
      export = (\<lambda>records. None),
      close_page = (\<lambda>c. None),
      listing_new_page = (\<lambda>listing_url. None),
      listing_open = (\<lambda>listing_url. Inr []),
      listing_close = (\<lambda>listing_url. None),
      listing_page_open = (\<lambda>listing_url page_id. None),
      listing_goto = (\<lambda>listing_url page_id. None),
      get_page_products_urls = (\<lambda>listing_url page_id. Inr (found listing_url)),
      listing_page_close = (\<lambda>listing_url page_id. None)\<rparr>"

definition empty_world :: world where
  "empty_world =
     \<lparr>data = [], failed_urls = {}, products_file = None, failed_file = None,
      data_file = None, events = []\<rparr>"

definition other_item :: item where
  "other_item =
     \<lparr>product_name = Some ''Bow'', item_url = ''https://blackeaglearrows.com/bow/'',
      droplists = [([], []), ([], []), ([], []), ([], [])], current_stock = 3\<rparr>"

text \<open>
  Variants of the simulated site. On \<open>unavailable_agent\<close> the page has no select element
  and shows the button \<open>Unavailable\<close>. \<open>link_down_env\<close> cannot navigate to
  \<open>broken_link\<close>; \<open>browser_down_env\<close> cannot open a context for it; \<open>disk_full_env\<close>
  cannot write the export.
\<close>

definition unavailable_agent :: "sim_page page_agent" where
  "unavailable_agent = (sim_agent [] None True)\<lparr>unavailable_button := (\<lambda>c. (Inr True, c))\<rparr>"

definition broken_link :: string where
  "broken_link = ''https://blackeaglearrows.com/gone/''"

definition arrow_link :: string where
  "arrow_link = ''https://blackeaglearrows.com/arrow/''"




text \<open>
  On \<open>late_failure_agent\<close> the page shows one select element with the options \<open>S\<close> and
  \<open>M\<close>, the cart refuses every quantity, and filling the quantity fails once the
  add-to-cart button has been clicked seven times; \<open>size_s_item\<close> is the record of
  its variant \<open>S\<close>. On \<open>no_heading_agent\<close> the extraction of the product item fails.
\<close>

definition late_failure_agent :: "sim_page page_agent" where
  "late_failure_agent =
     (sim_agent [(0, [''S'', ''M''])] None True)
       \<lparr>fill_qty := (\<lambda>n c. (if 7 \<le> clicks c then Some OtherError else None, c))\<rparr>"

definition size_s_item :: item where
  "size_s_item = sim_item\<lparr>droplists := [(''Size'', ''S''), ([], []), ([], []), ([], [])]\<rparr>"


text \<open>
  A site whose listing of arrows shows one product, \<open>arrow_link\<close>, while the other
  listings show none, and a site whose listing of bow accessories shows \<open>bow_link\<close> as
  well; a world left by an earlier run, whose \<open>products_urls.pkl\<close> holds \<open>broken_link\<close>;
  and an order in which a set of these links is listed. In \<open>calm_trace\<close> the four
  listing tasks access the file one after the other; in \<open>race_trace\<close> the first two
  tasks both load before either dumps.
\<close>

definition bow_link :: string where
  "bow_link = ''https://blackeaglearrows.com/bow/''"


definition shelves_env :: "sim_page env" where
  "shelves_env =
     sim_env unavailable_agent
       (\<lambda>listing_url. if listing_url = ''https://blackeaglearrows.com/bow-accessories/''
                      then [bow_link]
                      else if listing_url = ''https://blackeaglearrows.com/arrows/''
                      then [arrow_link] else [])"


definition known_links :: "string set \<Rightarrow> string list" where
  "known_links urls = filter (\<lambda>url. url \<in> urls) [broken_link, bow_link, arrow_link]"


definition race_trace :: "(nat \<times> listing_step) list" where
  "race_trace =
     [(0, LoadStep), (1, LoadStep), (0, DumpStep [bow_link]), (1, DumpStep [arrow_link]),
      (2, LoadStep), (2, DumpStep []), (3, LoadStep), (3, DumpStep [])]"

section \<open>Properties of the enumeration\<close>

lemma append_Nil_fun: "(@) [] = (\<lambda>c. c)"
  by (rule ext) simp

lemma append_snoc_fun: "(@) (x @ [y]) = (\<lambda>c. x @ y # c)"
  by (rule ext) simp

lemma foldl_product_step:
  "foldl product_step result pools =
     concat (map (\<lambda>r. map (\<lambda>c. r @ c) (nested_iteration pools)) result)"
proof (induction pools arbitrary: result)
  case Nil
  show ?case by (induction result) (simp_all add: append_Nil_fun)
next
  case (Cons a pools)
  show ?case
    unfolding foldl_Cons Cons.IH
    by (induction result) (simp_all add: product_step_def map_concat comp_def append_snoc_fun)
qed

lemma get_all_combinations_nested: "get_all_combinations axes = nested_iteration axes"
  by (simp add: get_all_combinations_def foldl_product_step append_Nil_fun)

lemma nested_iteration_product_lists: "nested_iteration axes = product_lists axes"
  by (induction axes) (simp_all add: comp_def)

lemma set_nested_iteration:
  "set (nested_iteration axes) =
     {c. length c = length axes \<and> (\<forall>i<length axes. c ! i \<in> set (axes ! i))}"
  by (auto simp: nested_iteration_product_lists product_lists_set list_all2_conv_all_nth)

text \<open>
  Claim C3. For axes with option lists of sizes \<open>k1..kn\<close>, \<open>get_all_combinations\<close>
  returns \<open>k1 * ... * kn\<close> combinations; they are pairwise distinct when the options of
  every axis are distinct; the combinations are exactly the lists of the axes' length
  whose position \<open>i\<close> holds an option of axis \<open>i\<close>; and they come in the order of nested
  iteration with the last axis varying fastest. The result is a function of the axes
  alone, so enumerating the same axes again gives the same list.
\<close>

theorem get_all_combinations_cartesian:
  "length (get_all_combinations axes) = prod_list (map length axes)
   \<and> ((\<forall>axis \<in> set axes. distinct axis) \<longrightarrow> distinct (get_all_combinations axes))
   \<and> set (get_all_combinations axes) =
       {c. length c = length axes \<and> (\<forall>i<length axes. c ! i \<in> set (axes ! i))}
   \<and> get_all_combinations axes = nested_iteration axes"
proof -
  have "length (nested_iteration axes) = prod_list (map length axes)"
    by (simp add: nested_iteration_product_lists length_product_lists prod_list.eq_foldr)
  moreover have "(\<forall>axis \<in> set axes. distinct axis) \<longrightarrow> distinct (nested_iteration axes)"
    by (simp add: nested_iteration_product_lists distinct_product_lists)
  ultimately show ?thesis
    by (simp add: get_all_combinations_nested set_nested_iteration)
qed

theorem get_all_combinations_cartesian_witness:
  "distinct (get_all_combinations [[''Red'', ''Blue''], [''S'', ''M'', ''L'']])
   \<and> length (get_all_combinations [[''Red'', ''Blue''], [''S'', ''M'', ''L'']]) = 6
   \<and> get_all_combinations [[''Red'', ''Blue''], [''S'', ''M'', ''L'']] =
       [[''Red'', ''S''], [''Red'', ''M''], [''Red'', ''L''],
        [''Blue'', ''S''], [''Blue'', ''M''], [''Blue'', ''L'']]"
  using get_all_combinations_cartesian [of "[[''Red'', ''Blue''], [''S'', ''M'', ''L'']]"]
  by simp

section \<open>Properties of the page count\<close>

lemma foldl_max_Max: "foldl max (m::int) ns = Max (set (m # ns))"
proof (induction ns arbitrary: m)
  case Nil
  show ?case by simp
next
  case (Cons n ns)
  have "Max (insert (max m n) (set ns)) = Max (insert m (insert n (set ns)))"
    by (cases "set ns = {}") (simp_all add: max.assoc)
  with Cons show ?case by simp
qed

lemma digit_value_nonneg: "is_digit c \<Longrightarrow> 0 \<le> digit_value c"
  by (auto simp: is_digit_def digit_value_def)

lemma foldl_digits_nonneg:
  "list_all is_digit s \<Longrightarrow> 0 \<le> a \<Longrightarrow> 0 \<le> foldl (\<lambda>acc c. 10 * acc + digit_value c) a s"
  by (induction s arbitrary: a) (auto simp: digit_value_nonneg)

lemma py_int_nonneg: "py_int s = Inr n \<Longrightarrow> 0 \<le> n"
  by (auto simp: py_int_def foldl_digits_nonneg split: if_splits)

lemma int_each_nonneg: "int_each ss = Inr ns \<Longrightarrow> \<forall>n \<in> set ns. 0 \<le> n"
  by (induction ss arbitrary: ns) (auto split: sum.splits dest: py_int_nonneg)

lemma int_each_length: "int_each ss = Inr ns \<Longrightarrow> length ns = length ss"
  by (induction ss arbitrary: ns) (auto split: sum.splits)

lemma py_max_Max: "ns \<noteq> [] \<Longrightarrow> py_max ns = Inr (Max (set ns))"
  by (cases ns) (simp_all add: foldl_max_Max)

text \<open>
  Claim C9, as amended. \<open>get_total_pages\<close> returns 1 when no pagination number is found.
  When some are found it returns the largest of them, with no lower bound of its own:
  the result is never negative, but it is 0 when every number found is 0.
\<close>

theorem get_total_pages_value:
  "(pagination_numbers = [] \<longrightarrow> get_total_pages pagination_numbers = 1)
   \<and> (\<forall>ns. pagination_numbers \<noteq> [] \<and> int_each pagination_numbers = Inr ns
          \<longrightarrow> get_total_pages pagination_numbers = Max (set ns))
   \<and> (\<forall>e. int_each pagination_numbers = Inl e \<longrightarrow> get_total_pages pagination_numbers = 1)
   \<and> 0 \<le> get_total_pages pagination_numbers"
proof -
  have a: "pagination_numbers = [] \<longrightarrow> get_total_pages pagination_numbers = 1"
    by (simp add: get_total_pages_def)
  have b: "get_total_pages pagination_numbers = Max (set ns)"
    if "pagination_numbers \<noteq> []" "int_each pagination_numbers = Inr ns" for ns
  proof -
    from that have "ns \<noteq> []" using int_each_length by fastforce
    with that show ?thesis by (simp add: get_total_pages_def py_max_Max)
  qed
  have c: "get_total_pages pagination_numbers = 1"
    if "int_each pagination_numbers = Inl e" for e
    using that by (simp add: get_total_pages_def)
  have d: "0 \<le> get_total_pages pagination_numbers"
  proof (cases "int_each pagination_numbers")
    case (Inl e)
    then show ?thesis using c by simp
  next
    case (Inr ns)
    show ?thesis
    proof (cases "pagination_numbers = []")
      case True
      then show ?thesis using a by simp
    next
      case False
      then have ne: "ns \<noteq> []" using Inr int_each_length by fastforce
      then obtain n where "n \<in> set ns" by (cases ns) auto
      with int_each_nonneg [OF Inr] have "0 \<le> n" by simp
      also have "n \<le> Max (set ns)" using \<open>n \<in> set ns\<close> by simp
      finally show ?thesis using b [OF False Inr] by simp
    qed
  qed
  from a b c d show ?thesis by blast
qed

theorem get_total_pages_value_witness:
  "[''2'', ''10'', ''3''] \<noteq> [] \<and> int_each [''2'', ''10'', ''3''] = Inr [2, 10, 3]
   \<and> get_total_pages [''2'', ''10'', ''3''] = 10"
  using get_total_pages_value [of "[''2'', ''10'', ''3'']"]
  by (simp add: py_int_def is_digit_def digit_value_def)

text \<open>
  The claim as stated fails on a listing page whose pagination links hold the digit run
  \<open>0\<close> and no other: the page count is 0.
\<close>

theorem get_total_pages_zero: "\<not> 1 \<le> get_total_pages [''0'']"
  by (simp add: get_total_pages_def py_int_def is_digit_def digit_value_def)

section \<open>Properties of the stock prober\<close>

lemma low_stock:
  assumes "0 \<le> Q" "Q \<le> 2"
  shows "get_inventory_value (counting_oracle Q) never_marked 100 0 = Some (Inr 0, 6)"
  using assms
  apply (simp add: get_inventory_value_def never_marked_def)
  apply (subst inventory_loop.simps, simp add: counting_oracle_def)
  apply (subst inventory_loop.simps, simp add: counting_oracle_def)
  apply (subst inventory_loop.simps, simp add: counting_oracle_def)
  apply (subst inventory_loop.simps, simp add: counting_oracle_def)
  apply (subst inventory_loop.simps, simp add: counting_oracle_def)
  apply (subst inventory_loop.simps, simp add: counting_oracle_def)
  done

text \<open>
  Against the stateless oracle the loop cannot end once the stock is 3 or more: it ends
  only after an \<open>UNAVAILABLE\<close> answer that halves \<open>check_value\<close> to 1, so after a call
  at 2 or 3, and such a call is answered \<open>AVAILABLE\<close>.
\<close>

lemma inventory_loop_diverges:
  assumes run: "inventory_loop try_q check_value try_count inventory c = Some r"
  shows "try_q = counting_oracle Q \<longrightarrow> 3 \<le> Q \<longrightarrow> 1 \<le> check_value \<longrightarrow> False"
proof (rule inventory_loop.raw_induct
    [where P = "\<lambda>tq cv tc inv c r. tq = counting_oracle Q \<longrightarrow> 3 \<le> Q \<longrightarrow> 1 \<le> cv \<longrightarrow> False",
      OF _ run], goal_cases)
  case (1 loop try_q check_value try_count inventory c r)
  show ?case
  proof (intro impI)
    assume tq: "try_q = counting_oracle Q" and Q: "3 \<le> Q" and cv: "1 \<le> check_value"
    define cv1 where "cv1 = (if 10 < try_count + 1 then check_value + 50000 else check_value)"
    define tc2 where "tc2 = (if 10 < try_count + 1 then - 100000 else try_count + 1)"
    have cv1: "1 \<le> cv1" using cv by (simp add: cv1_def)
    show False
    proof (cases "cv1 \<le> Q")
      case True
      with 1(2) have "loop try_q cv1 tc2 (inventory + cv1) (Suc c) = Some r"
        by (simp add: tq counting_oracle_def Let_def cv1_def tc2_def)
      from 1(1) [OF this] tq Q cv1 show False by simp
    next
      case False
      then have big: "2 \<le> cv1 div 2" using Q by linarith
      with 1(2) False have "loop try_q (cv1 div 2) tc2 inventory (Suc c) = Some r"
        by (simp add: tq counting_oracle_def Let_def cv1_def tc2_def)
      from 1(1) [OF this] tq Q big show False by simp
    qed
  qed
qed

lemma well_stocked_diverges:
  assumes "3 \<le> Q" "1 \<le> check_value"
  shows "get_inventory_value (counting_oracle Q) never_marked check_value calls = None"
proof (cases "get_inventory_value (counting_oracle Q) never_marked check_value calls")
  case None
  then show ?thesis .
next
  case (Some r)
  then have "inventory_loop (counting_oracle Q) check_value 0 0 calls = Some r"
    by (simp add: get_inventory_value_def never_marked_def)
  from inventory_loop_diverges [OF this] assms show ?thesis by simp
qed

lemma halvings_mono: "m \<le> n \<Longrightarrow> halvings m \<le> halvings n"
proof (induction n arbitrary: m rule: halvings.induct)
  case (1 n)
  show ?case
  proof (cases "m = 0")
    case True
    then show ?thesis by (simp add: halvings.simps [of 0])
  next
    case False
    with 1(2) have n: "n \<noteq> 0" by simp
    have "m div 2 \<le> n div 2" using 1(2) by (rule div_le_mono)
    from 1(1) [OF n this] False n show ?thesis
      by (simp add: halvings.simps [of m] halvings.simps [of n])
  qed
qed

text \<open>
  The binary search of \<open>scraper.py\<close> against the stateless oracle: when every quantity
  below \<open>left\<close> is available and none above \<open>right\<close> is, it returns the stock, and each
  call halves the interval.
\<close>

lemma binary_search_oracle:
  "left - 1 \<le> Q \<Longrightarrow> Q \<le> right \<Longrightarrow>
     fst (binary_search (scraper_oracle Q) left right calls) = Q
     \<and> snd (binary_search (scraper_oracle Q) left right calls)
           \<le> calls + halvings (nat (right - left + 1))"
proof (induction "scraper_oracle Q" left right calls rule: binary_search.induct)
  case (1 left right c)
  show ?case
  proof (cases "left \<le> right")
    case False
    with 1(3,4) show ?thesis by simp
  next
    case True
    define mid where "mid = (left + right) div 2"
    have mid: "left \<le> mid" "mid \<le> right" using True by (simp_all add: mid_def)
    have pos: "nat (right - left + 1) \<noteq> 0" using True by simp
    have unfold: "halvings (nat (right - left + 1)) = Suc (halvings (nat (right - left + 1) div 2))"
      using pos by (simp add: halvings.simps [of "nat (right - left + 1)"])
    show ?thesis
    proof (cases "mid \<le> Q")
      case le: True
      have step: "binary_search (scraper_oracle Q) left right c =
                  binary_search (scraper_oracle Q) (mid + 1) right (Suc c)"
        using True le by (subst binary_search.simps) (simp add: scraper_oracle_def mid_def Let_def)
      have ih: "fst (binary_search (scraper_oracle Q) (mid + 1) right (Suc c)) = Q
         \<and> snd (binary_search (scraper_oracle Q) (mid + 1) right (Suc c))
              \<le> Suc c + halvings (nat (right - (mid + 1) + 1))"
        using 1(1) [OF True mid_def, of True "Suc c"] le 1(4)
        by (simp add: scraper_oracle_def mid_def)
      have "nat (right - (mid + 1) + 1) \<le> nat (right - left + 1) div 2"
        using mid True by (simp add: mid_def)
      then have "halvings (nat (right - (mid + 1) + 1)) \<le> halvings (nat (right - left + 1) div 2)"
        by (rule halvings_mono)
      with ih step unfold show ?thesis by simp
    next
      case gt: False
      have step: "binary_search (scraper_oracle Q) left right c =
                  binary_search (scraper_oracle Q) left (mid - 1) (Suc c)"
        using True gt by (subst binary_search.simps) (simp add: scraper_oracle_def mid_def Let_def)
      have ih: "fst (binary_search (scraper_oracle Q) left (mid - 1) (Suc c)) = Q
         \<and> snd (binary_search (scraper_oracle Q) left (mid - 1) (Suc c))
              \<le> Suc c + halvings (nat (mid - 1 - left + 1))"
        using 1(2) [OF True mid_def, of False "Suc c"] gt 1(3)
        by (simp add: scraper_oracle_def mid_def)
      have "nat (mid - 1 - left + 1) \<le> nat (right - left + 1) div 2"
        using mid True by (simp add: mid_def)
      then have "halvings (nat (mid - 1 - left + 1)) \<le> halvings (nat (right - left + 1) div 2)"
        by (rule halvings_mono)
      with ih step unfold show ?thesis by simp
    qed
  qed
qed

lemma scraper_value:
  assumes "0 \<le> Q" "1 \<le> check_value"
  shows "fst (get_inventory_value_scraper (scraper_oracle Q) check_value 0) = min Q check_value
     \<and> snd (get_inventory_value_scraper (scraper_oracle Q) check_value 0)
          \<le> 1 + halvings (nat (check_value - 1))"
proof (cases "check_value \<le> Q")
  case True
  then show ?thesis by (simp add: get_inventory_value_scraper_def scraper_oracle_def)
next
  case False
  then have "get_inventory_value_scraper (scraper_oracle Q) check_value 0 =
      binary_search (scraper_oracle Q) 1 (check_value - 1) (Suc 0)"
    by (simp add: get_inventory_value_scraper_def scraper_oracle_def)
  moreover have "fst (binary_search (scraper_oracle Q) 1 (check_value - 1) (Suc 0)) = Q
     \<and> snd (binary_search (scraper_oracle Q) 1 (check_value - 1) (Suc 0))
           \<le> Suc 0 + halvings (nat (check_value - 1 - 1 + 1))"
    using assms False by (intro binary_search_oracle) simp_all
  ultimately show ?thesis using False by simp
qed

lemma halvings_99: "halvings 99 = 7"
  by code_simp

text \<open>
  Claim C1, as amended. Against the oracle that answers \<open>AVAILABLE\<close> exactly when
  \<open>n \<le> Q\<close>, for a stock \<open>Q \<ge> 0\<close>, a page without the out-of-stock mark and the default
  guess 100: the prober of \<open>utils/playwright_utils.py\<close> returns 0 after 6 oracle calls
  when \<open>Q = 0\<close>, and never returns when \<open>Q \<ge> 3\<close>; the prober of \<open>scraper.py\<close> returns
  \<open>min Q 100\<close>, which is \<open>Q\<close> exactly when \<open>Q \<le> 100\<close>, after at most 8 oracle calls.
\<close>

theorem get_inventory_value_synthetic:
  assumes "0 \<le> Q"
  shows "(Q = 0 \<longrightarrow> get_inventory_value (counting_oracle Q) never_marked 100 0 = Some (Inr 0, 6))
    \<and> (3 \<le> Q \<longrightarrow> get_inventory_value (counting_oracle Q) never_marked 100 0 = None)
    \<and> fst (get_inventory_value_scraper (scraper_oracle Q) 100 0) = min Q 100
    \<and> snd (get_inventory_value_scraper (scraper_oracle Q) 100 0) \<le> 8"
proof -
  have "Q = 0 \<longrightarrow> get_inventory_value (counting_oracle Q) never_marked 100 0 = Some (Inr 0, 6)"
    using low_stock [of 0] by simp
  moreover have "3 \<le> Q \<longrightarrow> get_inventory_value (counting_oracle Q) never_marked 100 0 = None"
    using well_stocked_diverges [of Q 100 0] by simp
  moreover have "fst (get_inventory_value_scraper (scraper_oracle Q) 100 0) = min Q 100
    \<and> snd (get_inventory_value_scraper (scraper_oracle Q) 100 0) \<le> 8"
    using scraper_value [OF assms, of 100] by (simp add: halvings_99)
  ultimately show ?thesis by simp
qed

theorem get_inventory_value_synthetic_witness:
  "(0::int) \<le> 7 \<and> (3::int) \<le> 7
   \<and> get_inventory_value (counting_oracle 7) never_marked 100 0 = None
   \<and> fst (get_inventory_value_scraper (scraper_oracle 7) 100 0) = 7
   \<and> snd (get_inventory_value_scraper (scraper_oracle 7) 100 0) \<le> 8"
  using get_inventory_value_synthetic [of 7] by simp

text \<open>
  The claim as stated fails at \<open>Q = 1\<close>, where the first prober returns 0, and at
  \<open>Q = 1000000\<close>, where the second returns the guess, 100.
\<close>

theorem get_inventory_value_not_exact:
  "get_inventory_value (counting_oracle 1) never_marked 100 0 = Some (Inr 0, 6)
   \<and> get_inventory_value_scraper (scraper_oracle 1000000) 100 0 = (100, 1)"
  using low_stock [of 1]
  by (simp add: get_inventory_value_scraper_def scraper_oracle_def)

section \<open>Properties of the cart oracle\<close>











section \<open>Properties of the product task\<close>

lemma try_inventory_quantity_raises:
  "cart_interaction ag n c = Some (Inl e, c') \<Longrightarrow>
     try_inventory_quantity ag n c = Some (Inl TypeError, c')"
  by (simp add: try_inventory_quantity_def)

lemma inventory_loop_raises:
  "try_q (if 10 < try_count + 1 then check_value + 50000 else check_value) c = Some (Inl e, c')
     \<Longrightarrow> inventory_loop try_q check_value try_count inventory c = Some (Inl e, c')"
  by (subst inventory_loop.simps) (simp add: Let_def)

lemma probe_variation_raises:
  "select_each ag (selections attrs combination) c = (None, c1) \<Longrightarrow>
   get_product_item ag c1 = (Inr variation_item, c2) \<Longrightarrow>
   select_descs ag (map fst attrs) c2 = (Inr attr_names, c3) \<Longrightarrow>
   get_inventory_value (try_inventory_quantity ag) (check_out_of_stock ag) guess c3
     = Some (Inl e, c4) \<Longrightarrow>
   probe_variation ag attrs combination guess c = Some (Inl e, c4)"
  by (simp add: probe_variation_def)

lemma probe_combinations_raises:
  "probe_variation ag attrs combination guess c = Some (Inl e, c') \<Longrightarrow>
     probe_combinations ag attrs (combination # rest) guess records c = Some (Inl e, records, c')"
  by simp

lemma inventory_identifier_raises:
  "options_dict ag c = (Inr attrs, c1) \<Longrightarrow> attrs \<noteq> [] \<Longrightarrow>
   probe_combinations ag attrs (get_all_combinations (map snd attrs)) guess records c1
     = Some (Inl e, records', c2) \<Longrightarrow>
   inventory_identifier ag records guess c = Some (Inl e, records', c2)"
  by (simp add: inventory_identifier_def Let_def)

lemma handle_url_probe_failure:
  assumes "new_page en url = Inr c"
    and "goto en url c = (None, c1)"
    and "check_handled_url (agent en) (data w) c1 = (Inr False, c2)"
    and "popup (agent en) c2 = (None, c3)"
    and "get_product_item (agent en) c3 = (Inr primary_item, c4)"
    and "unavailable_button (agent en) c4 = (Inr False, c5)"
    and "inventory_identifier (agent en) (data w) 100 c5 = Some (Inl e, records, c6)"
    and "e = TimeoutError \<or> e = NotImplementedError"
    and "export en records = None"
    and "close_page en c6 = None"
  shows "handle_url en url w =
     Some (None, w\<lparr>data := records,
                    failed_urls := insert url (failed_urls w),
                    failed_file := Some (insert url (failed_urls w)),
                    data_file := Some records,
                    events := events w @ [ProductStart url]\<rparr>)"
  using assms by (auto simp: handle_url_def handle_url_try_def Let_def)


lemma sim_combinations: "get_all_combinations [[''S'', ''M'']] = [[''S''], [''M'']]"
  by (simp add: get_all_combinations_def product_step_def)

section \<open>Products without variants\<close>

lemma empty_axis_no_combination: "[] \<in> set axes \<Longrightarrow> get_all_combinations axes = []"
proof -
  assume "[] \<in> set axes"
  then have "(0::nat) \<in> set (map length axes)" by force
  then have "prod_list (map length axes) = 0" by (simp add: prod_list_zero_iff)
  then have "length (product_lists axes) = 0"
    by (simp add: length_product_lists prod_list.eq_foldr)
  then show ?thesis
    by (simp add: get_all_combinations_nested nested_iteration_product_lists)
qed

text \<open>
  Claim C4, as amended. For no axis at all the enumeration is the one empty combination,
  but \<open>inventory_identifier\<close> of \<open>utils/playwright_utils.py\<close> does not reach it: on a
  page without a select element it raises \<open>NotImplementedError\<close> before it enumerates
  or probes, and appends no record. An axis without options gives no combination, and
  \<open>inventory_identifier\<close> then returns 0 without an error and without a record.
\<close>

theorem zero_axes_not_probed:
  "get_all_combinations ([] :: string list list) = [[]]
   \<and> (options_dict ag c = (Inr [], c1)
      \<longrightarrow> inventory_identifier ag records guess c = Some (Inl NotImplementedError, records, c1))
   \<and> ([] \<in> set axes \<longrightarrow> get_all_combinations axes = [])
   \<and> (options_dict ag c = (Inr attrs, c1) \<and> attrs \<noteq> [] \<and> [] \<in> set (map snd attrs)
      \<longrightarrow> inventory_identifier ag records guess c = Some (Inr 0, records, c1))"
proof (intro conjI impI)
  show "get_all_combinations ([] :: string list list) = [[]]"
    by (simp add: get_all_combinations_def)
next
  assume "options_dict ag c = (Inr [], c1)"
  then show "inventory_identifier ag records guess c = Some (Inl NotImplementedError, records, c1)"
    by (simp add: inventory_identifier_def)
next
  assume "[] \<in> set axes"
  then show "get_all_combinations axes = []" by (rule empty_axis_no_combination)
next
  assume a: "options_dict ag c = (Inr attrs, c1) \<and> attrs \<noteq> [] \<and> [] \<in> set (map snd attrs)"
  then have "get_all_combinations (map snd attrs) = []"
    by (intro empty_axis_no_combination) simp
  with a show "inventory_identifier ag records guess c = Some (Inr 0, records, c1)"
    by (simp add: inventory_identifier_def)
qed

theorem zero_axes_not_probed_witness:
  "options_dict (sim_agent [] None True) fresh_page = (Inr [], fresh_page)
   \<and> inventory_identifier (sim_agent [] None True) [other_item] 100 fresh_page
       = Some (Inl NotImplementedError, [other_item], fresh_page)
   \<and> [] \<in> set [[''S'', ''M''], []]
   \<and> get_all_combinations [[''S'', ''M''], []] = []
   \<and> options_dict (sim_agent [(0, [''S'', ''M'']), (1, [])] None True) fresh_page
       = (Inr [(0, [''S'', ''M'']), (1, [])], fresh_page)
   \<and> inventory_identifier (sim_agent [(0, [''S'', ''M'']), (1, [])] None True) [other_item] 100
         fresh_page
       = Some (Inr 0, [other_item], fresh_page)"
proof -
  have o0: "options_dict (sim_agent [] None True) fresh_page = (Inr [], fresh_page)"
    by (simp add: sim_agent_def)
  have o1: "options_dict (sim_agent [(0, [''S'', ''M'']), (1, [])] None True) fresh_page
       = (Inr [(0, [''S'', ''M'']), (1, [])], fresh_page)"
    by (simp add: sim_agent_def)
  from o0 zero_axes_not_probed
      [where ag = "sim_agent [] None True" and c = fresh_page and ?c1.0 = fresh_page
         and records = "[other_item]" and guess = 100 and axes = "[[''S'', ''M''], []]"]
  have a: "inventory_identifier (sim_agent [] None True) [other_item] 100 fresh_page
       = Some (Inl NotImplementedError, [other_item], fresh_page)"
    and b: "get_all_combinations [[''S'', ''M''], []] = []"
    by simp_all
  from o1 zero_axes_not_probed
      [where ag = "sim_agent [(0, [''S'', ''M'']), (1, [])] None True" and c = fresh_page
         and ?c1.0 = fresh_page and attrs = "[(0, [''S'', ''M'']), (1, [])]"
         and records = "[other_item]" and guess = 100 and axes = "[[]]"]
  have c: "inventory_identifier (sim_agent [(0, [''S'', ''M'']), (1, [])] None True) [other_item] 100
         fresh_page
       = Some (Inr 0, [other_item], fresh_page)"
    by auto
  from o0 o1 a b c show ?thesis by simp
qed

text \<open>
  The claim as stated fails on the simulated page without a select element: nothing is
  probed, no record is appended, and the URL of the product ends in \<open>failed_urls\<close>.
\<close>

theorem zero_axes_product_fails:
  "inventory_identifier (sim_agent [] None True) [] 100 fresh_page
     = Some (Inl NotImplementedError, [], fresh_page)
   \<and> handle_url (sim_env (sim_agent [] None True) (\<lambda>u. []))
       ''https://blackeaglearrows.com/arrow/'' empty_world
     = Some (None, empty_world
          \<lparr>failed_urls := {''https://blackeaglearrows.com/arrow/''},
            failed_file := Some {''https://blackeaglearrows.com/arrow/''},
            data_file := Some [],
            events := [ProductStart ''https://blackeaglearrows.com/arrow/'']\<rparr>)"
proof -
  define ag where "ag = sim_agent [] None True"
  define en where "en = sim_env ag (\<lambda>u. [])"
  have opt: "options_dict ag fresh_page = (Inr [], fresh_page)"
    by (simp add: ag_def sim_agent_def)
  then have inv: "inventory_identifier ag [] 100 fresh_page
      = Some (Inl NotImplementedError, [], fresh_page)"
    by (simp add: inventory_identifier_def)
  have chk: "check_handled_url ag (data empty_world) fresh_page = (Inr False, fresh_page)"
    by (simp add: check_handled_url_def opt get_all_combinations_def empty_world_def)
  have "handle_url en ''https://blackeaglearrows.com/arrow/'' empty_world =
     Some (None, empty_world\<lparr>data := [],
                    failed_urls := insert ''https://blackeaglearrows.com/arrow/'' (failed_urls empty_world),
                    failed_file := Some (insert ''https://blackeaglearrows.com/arrow/'' (failed_urls empty_world)),
                    data_file := Some [],
                    events := events empty_world @ [ProductStart ''https://blackeaglearrows.com/arrow/'']\<rparr>)"
  proof (rule handle_url_probe_failure [where e = NotImplementedError and c = fresh_page
        and ?c1.0 = fresh_page and ?c2.0 = fresh_page and ?c3.0 = fresh_page
        and ?c4.0 = fresh_page and ?c5.0 = fresh_page and ?c6.0 = fresh_page
        and primary_item = sim_item])
    show "check_handled_url (agent en) (data empty_world) fresh_page = (Inr False, fresh_page)"
      using chk by (simp add: en_def sim_env_def)
    show "inventory_identifier (agent en) (data empty_world) 100 fresh_page
        = Some (Inl NotImplementedError, [], fresh_page)"
      using inv by (simp add: en_def sim_env_def empty_world_def)
  qed (simp_all add: en_def sim_env_def ag_def sim_agent_def)
  with inv show ?thesis by (simp add: ag_def en_def empty_world_def)
qed

section \<open>Properties of the handled check\<close>

text \<open>
  Claim C5, as amended. \<open>check_handled_url\<close> compares the number of combinations of the
  page with the length of a list that has one boolean for every stored record, whatever
  the boolean is: the number of stored records. Its result is the equality of the two
  numbers, so two lists of records of the same length give the same result, whether
  their records are of this page or not.
\<close>

theorem check_handled_url_compares_lengths:
  "length (map (\<lambda>item. product_name item = Some (page_url ag c1)) records) = length records
   \<and> (options_dict ag c = (Inr attrs, c1)
      \<longrightarrow> check_handled_url ag records c
          = (Inr (length (get_all_combinations (map snd attrs)) = length records), c1))
   \<and> (options_dict ag c = (Inr attrs, c1) \<and> length records = length records'
      \<longrightarrow> check_handled_url ag records c = check_handled_url ag records' c)"
  by (simp add: check_handled_url_def Let_def)

theorem check_handled_url_compares_lengths_witness:
  "options_dict (sim_agent [(0, [''S'', ''M''])] None True) fresh_page
     = (Inr [(0, [''S'', ''M''])], fresh_page)
   \<and> length [other_item, other_item] = length [sim_item, other_item]
   \<and> check_handled_url (sim_agent [(0, [''S'', ''M''])] None True) [other_item, other_item] fresh_page
     = (Inr True, fresh_page)
   \<and> check_handled_url (sim_agent [(0, [''S'', ''M''])] None True) [other_item, other_item] fresh_page
     = check_handled_url (sim_agent [(0, [''S'', ''M''])] None True) [sim_item, other_item] fresh_page"
proof -
  have o: "options_dict (sim_agent [(0, [''S'', ''M''])] None True) fresh_page
     = (Inr [(0, [''S'', ''M''])], fresh_page)"
    by (simp add: sim_agent_def)
  from o check_handled_url_compares_lengths
      [where ag = "sim_agent [(0, [''S'', ''M''])] None True" and c = fresh_page
         and ?c1.0 = fresh_page and attrs = "[(0, [''S'', ''M''])]"
         and records = "[other_item, other_item]" and records' = "[sim_item, other_item]"]
  have "check_handled_url (sim_agent [(0, [''S'', ''M''])] None True) [other_item, other_item] fresh_page
     = (Inr True, fresh_page)"
    and "check_handled_url (sim_agent [(0, [''S'', ''M''])] None True) [other_item, other_item] fresh_page
     = check_handled_url (sim_agent [(0, [''S'', ''M''])] None True) [sim_item, other_item] fresh_page"
    by (auto simp: sim_combinations)
  with o show ?thesis by simp
qed

text \<open>
  The claim as stated fails where it takes the compared quantity for one that is almost
  always 0: with two stored records, none of the page, the quantity is 2, and a page
  with two combinations is reported as handled.
\<close>

theorem check_handled_url_unrelated_records:
  "filter (\<lambda>item. product_name item
             = Some (page_url (sim_agent [(0, [''S'', ''M''])] None True) fresh_page))
       [other_item, other_item] = []
   \<and> length (map (\<lambda>item. product_name item
             = Some (page_url (sim_agent [(0, [''S'', ''M''])] None True) fresh_page))
       [other_item, other_item]) = 2
   \<and> check_handled_url (sim_agent [(0, [''S'', ''M''])] None True) [other_item, other_item]
       fresh_page = (Inr True, fresh_page)"
  by (simp add: check_handled_url_def sim_agent_def other_item_def sim_combinations)

section \<open>A failing cart interaction\<close>

lemma probe_combinations_append:
  "probe_combinations ag attrs (before @ later) guess records q =
     (case probe_combinations ag attrs before guess records q of
        None \<Rightarrow> None
      | Some (Inl e, records1, q1) \<Rightarrow> Some (Inl e, records1, q1)
      | Some (Inr u, records1, q1) \<Rightarrow> probe_combinations ag attrs later guess records1 q1)"
  by (induction before arbitrary: records q)
     (simp_all split: option.split sum.split prod.split)

lemma probe_combinations_later_failure:
  assumes "probe_combinations ag attrs before guess records q = Some (Inr (), records1, q1)"
    and "probe_variation ag attrs combination guess q1 = Some (Inl e, q2)"
  shows "probe_combinations ag attrs (before @ combination # rest) guess records q
           = Some (Inl e, records1, q2)"
  using assms by (simp add: probe_combinations_append)

lemma late_failure_refused:
  "clicks c < 7 \<Longrightarrow> timeouts_left c = 0 \<Longrightarrow>
     try_inventory_quantity late_failure_agent n c = Some (Inr False, c\<lparr>clicks := Suc (clicks c)\<rparr>)"
  by (simp add: try_inventory_quantity_def cart_interaction_def late_failure_agent_def
      sim_agent_def, subst click_until_done.simps, simp)

lemma late_failure_raises:
  "7 \<le> clicks c \<Longrightarrow> try_inventory_quantity late_failure_agent n c = Some (Inl TypeError, c)"
  by (simp add: try_inventory_quantity_def cart_interaction_def late_failure_agent_def
      sim_agent_def)


lemma get_inventory_value_raises:
  "out_of_stock c = (Inr False, c1) \<Longrightarrow>
   inventory_loop try_q check_value 0 0 c1 = Some (Inl e, c2) \<Longrightarrow>
   get_inventory_value try_q out_of_stock check_value c = Some (Inl e, c2)"
  by (simp add: get_inventory_value_def)

lemma late_failure_in_stock:
  "check_out_of_stock late_failure_agent c = (Inr False, c)"
  by (simp add: late_failure_agent_def sim_agent_def)

lemma late_failure_first_probe:
  "get_inventory_value (try_inventory_quantity late_failure_agent)
       (check_out_of_stock late_failure_agent) 100 fresh_page
     = Some (Inr 0, \<lparr>timeouts_left = 0, clicks = 6, reloads = 0\<rparr>)"
  apply (simp add: get_inventory_value_def late_failure_in_stock fresh_page_def)
  apply (subst inventory_loop.simps, simp add: late_failure_refused)
  apply (subst inventory_loop.simps, simp add: late_failure_refused)
  apply (subst inventory_loop.simps, simp add: late_failure_refused)
  apply (subst inventory_loop.simps, simp add: late_failure_refused)
  apply (subst inventory_loop.simps, simp add: late_failure_refused)
  apply (subst inventory_loop.simps, simp add: late_failure_refused)
  done

lemma late_failure_second_probe:
  "get_inventory_value (try_inventory_quantity late_failure_agent)
       (check_out_of_stock late_failure_agent) 100
       \<lparr>timeouts_left = 0, clicks = 6, reloads = 0\<rparr>
     = Some (Inl TypeError, \<lparr>timeouts_left = 0, clicks = 7, reloads = 0\<rparr>)"
proof (rule get_inventory_value_raises [OF late_failure_in_stock])
  have "inventory_loop (try_inventory_quantity late_failure_agent) 100 0 0
          \<lparr>timeouts_left = 0, clicks = 6, reloads = 0\<rparr>
        = inventory_loop (try_inventory_quantity late_failure_agent) 50 1 0
          \<lparr>timeouts_left = 0, clicks = 7, reloads = 0\<rparr>"
    by (subst inventory_loop.simps) (simp add: late_failure_refused)
  also have "\<dots> = Some (Inl TypeError, \<lparr>timeouts_left = 0, clicks = 7, reloads = 0\<rparr>)"
    by (rule inventory_loop_raises) (simp add: late_failure_raises)
  finally show "inventory_loop (try_inventory_quantity late_failure_agent) 100 0 0
          \<lparr>timeouts_left = 0, clicks = 6, reloads = 0\<rparr>
        = Some (Inl TypeError, \<lparr>timeouts_left = 0, clicks = 7, reloads = 0\<rparr>)" .
qed

lemma late_failure_page:
  "options_dict late_failure_agent c = (Inr [(0, [''S'', ''M''])], c)"
  "select_each late_failure_agent (selections [(0, [''S'', ''M''])] [v]) c = (None, c)"
  "get_product_item late_failure_agent c = (Inr sim_item, c)"
  "get_select_desc late_failure_agent attr_handle c = (Inr ''Size'', c)"
  "popup late_failure_agent c = (None, c)"
  "unavailable_button late_failure_agent c = (Inr False, c)"
  by (simp_all add: late_failure_agent_def sim_agent_def selections_def)

lemma late_failure_size_s:
  "probe_variation late_failure_agent [(0, [''S'', ''M''])] [''S''] 100 fresh_page
     = Some (Inr size_s_item, \<lparr>timeouts_left = 0, clicks = 6, reloads = 0\<rparr>)"
  by (simp add: probe_variation_def late_failure_page late_failure_first_probe size_s_item_def
      set_droplists_def sim_item_def)

lemma late_failure_size_m:
  "probe_variation late_failure_agent [(0, [''S'', ''M''])] [''M''] 100
       \<lparr>timeouts_left = 0, clicks = 6, reloads = 0\<rparr>
     = Some (Inl TypeError, \<lparr>timeouts_left = 0, clicks = 7, reloads = 0\<rparr>)"
  by (rule probe_variation_raises [OF _ _ _ late_failure_second_probe])
     (simp_all add: late_failure_page)

lemma late_failure_identifier:
  "inventory_identifier late_failure_agent [] 100 fresh_page
     = Some (Inl TypeError, [size_s_item], \<lparr>timeouts_left = 0, clicks = 7, reloads = 0\<rparr>)"
proof (rule inventory_identifier_raises)
  show "options_dict late_failure_agent fresh_page = (Inr [(0, [''S'', ''M''])], fresh_page)"
    by (rule late_failure_page)
  show "[(0::nat, [''S'', ''M''])] \<noteq> []" by simp
  have "probe_combinations late_failure_agent [(0, [''S'', ''M''])] ([[''S'']] @ [''M''] # [])
          100 [] fresh_page
        = Some (Inl TypeError, [size_s_item], \<lparr>timeouts_left = 0, clicks = 7, reloads = 0\<rparr>)"
    by (rule probe_combinations_later_failure [OF _ late_failure_size_m])
       (simp add: late_failure_size_s)
  then show "probe_combinations late_failure_agent [(0, [''S'', ''M''])]
          (get_all_combinations (map snd [(0::nat, [''S'', ''M''])])) 100 [] fresh_page
        = Some (Inl TypeError, [size_s_item], \<lparr>timeouts_left = 0, clicks = 7, reloads = 0\<rparr>)"
    by (simp add: sim_combinations)
qed

text \<open>
  Claim C10. When filling the quantity fails in the middle of the second probe of the
  second variant, \<open>try_inventory_quantity\<close> does not return \<open>False\<close>: it raises, and
  what it raises is a \<open>TypeError\<close>, not the \<open>TimeoutError\<close> its handler names. The
  exception ends the loop of \<open>get_inventory_value\<close>, the loop over the combinations and
  \<open>inventory_identifier\<close>; the record of the first variant stays in \<open>data\<close>, the second
  variant gets none. In \<open>handle_url\<close> the handler \<open>except TimeoutError\<close> does not catch
  it; the handler \<open>except Exception\<close> does, and adds the URL to \<open>failed_urls\<close> without
  dumping \<open>failed_urls.pkl\<close>.
\<close>

theorem cart_failure_raises_type_error:
  "try_inventory_quantity late_failure_agent 50 \<lparr>timeouts_left = 0, clicks = 7, reloads = 0\<rparr>
     = Some (Inl TypeError, \<lparr>timeouts_left = 0, clicks = 7, reloads = 0\<rparr>)
   \<and> inventory_identifier late_failure_agent [] 100 fresh_page
     = Some (Inl TypeError, [size_s_item], \<lparr>timeouts_left = 0, clicks = 7, reloads = 0\<rparr>)
   \<and> handle_url (sim_env late_failure_agent (\<lambda>u. [])) arrow_link empty_world
     = Some (None, empty_world
          \<lparr>data := [size_s_item],
            failed_urls := {arrow_link},
            failed_file := None,
            data_file := Some [size_s_item],
            events := [ProductStart arrow_link]\<rparr>)"
proof -
  have chk: "check_handled_url late_failure_agent [] c = (Inr False, c)" for c
    by (simp add: check_handled_url_def late_failure_page sim_combinations)
  have "handle_url_try (sim_env late_failure_agent (\<lambda>u. [])) arrow_link
          (empty_world\<lparr>events := events empty_world @ [ProductStart arrow_link]\<rparr>) fresh_page
        = Some (Some TypeError,
                empty_world\<lparr>events := events empty_world @ [ProductStart arrow_link]\<rparr>
                  \<lparr>data := [size_s_item]\<rparr>,
                \<lparr>timeouts_left = 0, clicks = 7, reloads = 0\<rparr>)"
    by (simp add: handle_url_try_def sim_env_def chk late_failure_page late_failure_identifier
        empty_world_def)
  then have "handle_url (sim_env late_failure_agent (\<lambda>u. [])) arrow_link empty_world
     = Some (None, empty_world
          \<lparr>data := [size_s_item],
            failed_urls := {arrow_link},
            failed_file := None,
            data_file := Some [size_s_item],
            events := [ProductStart arrow_link]\<rparr>)"
    by (simp add: handle_url_def Let_def) (simp add: sim_env_def empty_world_def)
  with late_failure_identifier show ?thesis by (simp add: late_failure_raises)
qed

section \<open>Failure isolation in the product task\<close>










section \<open>Properties of the listing phase\<close>







lemma one_page: "[1 .. get_total_pages []] = [1]"
  by (simp add: get_total_pages_def upto.simps)

lemma sim_listing:
  "handle_listing (sim_env ag found) listing_url = (None, [LoadStep, DumpStep (found listing_url)])"
  by (simp add: handle_listing_def one_page sim_env_def)


lemma shelves_tasks:
  "listing_tasks shelves_env
     = [[LoadStep, DumpStep [bow_link]], [LoadStep, DumpStep [arrow_link]],
        [LoadStep, DumpStep []], [LoadStep, DumpStep []]]"
  by (simp add: listing_tasks_def shelves_env_def sim_listing listing_urls_def)

lemma sim_listing_batch:
  "gather_with_concurrency 2 (map (\<lambda>url. fst (handle_listing (sim_env ag found) url)) listing_urls)
     = AllReturned"
  by (simp add: sim_listing gather_with_concurrency_def list_all_iff)

lemma four_tasks: "[0 ..< 4] = [0, 1, 2, 3]"
  by (simp add: upt_rec)


lemma race_interleaving: "interleaving race_trace (listing_tasks shelves_env)"
  by (simp add: interleaving_def shelves_tasks race_trace_def steps_of_def four_tasks)

lemma nine_prefixes: "[0 ..< Suc 8] = [0, 1, 2, 3, 4, 5, 6, 7, 8]"
  by (simp add: upt_rec)


lemma race_admissible: "admissible 2 (listing_tasks shelves_env) race_trace"
  by (simp add: admissible_def under_way_def shelves_tasks race_trace_def steps_of_def
      four_tasks nine_prefixes)

lemma links_distinct:
  "broken_link \<noteq> bow_link" "broken_link \<noteq> arrow_link" "bow_link \<noteq> arrow_link"
  "bow_link \<noteq> broken_link" "arrow_link \<noteq> broken_link" "arrow_link \<noteq> bow_link"
  by (simp_all add: broken_link_def bow_link_def arrow_link_def)


lemma race_file:
  "exec_steps (take 3 race_trace) None (\<lambda>t. {}) = Some {bow_link}"
  "exec_steps (take 4 race_trace) None (\<lambda>t. {}) = Some {arrow_link}"
  "exec_steps race_trace None (\<lambda>t. {}) = Some {arrow_link}"
  by (simp_all add: race_trace_def load_products_urls_def)




lemma race_run:
  "run shelves_env race_trace known_links pages_number empty_world
     = ProductBatch (empty_world\<lparr>products_file := Some {arrow_link},
                                 events := [ListingBatchDone]\<rparr>) pages_number [arrow_link]"
  by (simp add: run_def shelves_env_def sim_listing_batch Let_def
      empty_world_def race_file load_products_urls_def known_links_def links_distinct)




section \<open>The merge of product URLs\<close>

text \<open>
  Claim C8. A listing task merges the URLs of a page into \<open>products_urls.pkl\<close> by loading
  the file, uniting and dumping. With no step of another task between the load and the
  dump, the file then holds the union of what it held and the URLs of the page, merging
  the same URLs twice leaves what merging them once leaves, and nothing is removed. The
  task awaits the extraction of the URLs between its load and its dump, and two listing
  tasks are under way at a time. On a site whose first listing shows \<open>bow_link\<close> and
  whose second shows \<open>arrow_link\<close>, when both tasks load before either dumps, the first
  dump leaves \<open>bow_link\<close> in the file and the second removes it: the persisted set
  shrinks, and \<open>run\<close> creates no product task for \<open>bow_link\<close>.
\<close>

theorem merge_loses_concurrent_update:
  "exec_steps [(t, LoadStep), (t, DumpStep new_urls)] stored held
     = Some (load_products_urls stored \<union> set new_urls)
   \<and> exec_steps [(t, LoadStep), (t, DumpStep new_urls), (t, LoadStep), (t, DumpStep new_urls)]
        stored held
     = exec_steps [(t, LoadStep), (t, DumpStep new_urls)] stored held
   \<and> load_products_urls stored
       \<subseteq> load_products_urls (exec_steps [(t, LoadStep), (t, DumpStep new_urls)] stored held)
   \<and> listing_tasks shelves_env
       = [[LoadStep, DumpStep [bow_link]], [LoadStep, DumpStep [arrow_link]],
          [LoadStep, DumpStep []], [LoadStep, DumpStep []]]
   \<and> interleaving race_trace (listing_tasks shelves_env)
   \<and> admissible 2 (listing_tasks shelves_env) race_trace
   \<and> take 4 race_trace
       = [(0, LoadStep), (1, LoadStep), (0, DumpStep [bow_link]), (1, DumpStep [arrow_link])]
   \<and> exec_steps (take 3 race_trace) None (\<lambda>t. {}) = Some {bow_link}
   \<and> exec_steps (take 4 race_trace) None (\<lambda>t. {}) = Some {arrow_link}
   \<and> bow_link \<notin> {arrow_link}
   \<and> run shelves_env race_trace known_links 1 empty_world
       = ProductBatch (empty_world\<lparr>products_file := Some {arrow_link},
                                   events := [ListingBatchDone]\<rparr>) 1 [arrow_link]"
proof -
  have alone: "exec_steps [(t, LoadStep), (t, DumpStep new_urls)] stored held
     = Some (load_products_urls stored \<union> set new_urls)"
    by simp
  have twice: "exec_steps [(t, LoadStep), (t, DumpStep new_urls), (t, LoadStep),
        (t, DumpStep new_urls)] stored held
     = exec_steps [(t, LoadStep), (t, DumpStep new_urls)] stored held"
    by (simp add: load_products_urls_def)
  have grows: "load_products_urls stored
       \<subseteq> load_products_urls (exec_steps [(t, LoadStep), (t, DumpStep new_urls)] stored held)"
    by (simp add: load_products_urls_def)
  have prefix: "take 4 race_trace
       = [(0, LoadStep), (1, LoadStep), (0, DumpStep [bow_link]), (1, DumpStep [arrow_link])]"
    by (simp add: race_trace_def)
  show ?thesis
    using alone twice grows prefix shelves_tasks race_interleaving race_admissible race_file
      race_run links_distinct
    by simp
qed
end
